theory Spec2Isabelle
  imports Complex_Main
begin

section \<open>JavaScript strings\<close>

text \<open>
  A JavaScript string is a sequence of UTF-16 code units. The accent handling of
  \<open>getProvinceCode\<close> works on code units above U+00FF (the combining marks
  U+0300 to U+036F), so a string is a list of code units, each a natural number.
  \<open>u\<close> writes an ASCII literal.
\<close>

type_synonym jstring = "nat list"

definition u :: "string \<Rightarrow> jstring" where
  "u s = map of_char s"

text \<open>Decimal rendering of an integer, as a template literal renders a count.\<close>

fun show_nat :: "nat \<Rightarrow> jstring" where
  "show_nat n = (if n < 10 then [48 + n] else show_nat (n div 10) @ [48 + n mod 10])"

definition show_int :: "int \<Rightarrow> jstring" where
  "show_int i = (if i < 0 then 45 # show_nat (nat (- i)) else show_nat (nat i))"

section \<open>Parsed JSON and the JavaScript operators applied to it\<close>

text \<open>
  \<open>response.json()\<close> yields an untyped value. An object keeps its members in
  source order; a repeated key reads as its last occurrence. \<open>undefined\<close> is
  \<open>None\<close> of \<open>json option\<close>.
\<close>

datatype json =
    JNull
  | JBool bool
  | JNum rat
  | JStr jstring
  | JArr "json list"
  | JObj "(jstring \<times> json) list"

text \<open>The property names that \<open>createOrder\<close> reads from the parsed body.\<close>

datatype pname = P_errors | P_data | P_orderCreate | P_userErrors | P_length | P_order

fun prop_name :: "pname \<Rightarrow> jstring" where
  "prop_name P_errors = u ''errors''"
| "prop_name P_data = u ''data''"
| "prop_name P_orderCreate = u ''orderCreate''"
| "prop_name P_userErrors = u ''userErrors''"
| "prop_name P_length = u ''length''"
| "prop_name P_order = u ''order''"

text \<open>
  Reading one of these properties from a value that is neither \<open>null\<close> nor
  \<open>undefined\<close>: an object gives its member, an array and a string give their
  \<open>length\<close>, every other read is \<open>undefined\<close>.
\<close>

fun member :: "json \<Rightarrow> pname \<Rightarrow> json option" where
  "member (JObj kvs) p = map_of (rev kvs) (prop_name p)"
| "member (JArr xs) p = (if p = P_length then Some (JNum (of_nat (length xs))) else None)"
| "member (JStr s) p = (if p = P_length then Some (JNum (of_nat (length s))) else None)"
| "member _ p = None"

datatype js_error =
    ConfigError
  | HttpError nat
  | GraphQLQueryFailed
  | FetchRejected jstring
  | JsonRejected jstring
  | TypeError

text \<open>\<open>x.p\<close> throws a TypeError on \<open>null\<close> and \<open>undefined\<close>; \<open>x?.p\<close> gives \<open>undefined\<close> there.\<close>

fun dot :: "json option \<Rightarrow> pname \<Rightarrow> js_error + json option" where
  "dot None p = Inl TypeError"
| "dot (Some JNull) p = Inl TypeError"
| "dot (Some v) p = Inr (member v p)"

fun qdot :: "json option \<Rightarrow> pname \<Rightarrow> json option" where
  "qdot None p = None"
| "qdot (Some JNull) p = None"
| "qdot (Some v) p = member v p"

fun truthy :: "json option \<Rightarrow> bool" where
  "truthy None = False"
| "truthy (Some JNull) = False"
| "truthy (Some (JBool b)) = b"
| "truthy (Some (JNum n)) = (n \<noteq> 0)"
| "truthy (Some (JStr s)) = (s \<noteq> [])"
| "truthy (Some (JArr xs)) = True"
| "truthy (Some (JObj kvs)) = True"

text \<open>
  The library functions of the JavaScript runtime that the code calls and that are not
  part of the repository: \<open>String.prototype.normalize("NFD")\<close>,
  \<open>String.prototype.toUpperCase\<close>, and the numeric coercion that \<open>v > 0\<close>
  applies to a string, an array or an object. The model takes them as a parameter;
  its theorems hold for every such runtime.
\<close>

record runtime =
  normalizeNFD :: "jstring \<Rightarrow> jstring"
  toUpperCase :: "jstring \<Rightarrow> jstring"
  coercedGtZero :: "json \<Rightarrow> bool"

text \<open>\<open>v > 0\<close>: \<open>undefined\<close> is NaN, \<open>null\<close> is 0, \<open>true\<close> is 1.\<close>

fun gtZero :: "runtime \<Rightarrow> json option \<Rightarrow> bool" where
  "gtZero rt None = False"
| "gtZero rt (Some JNull) = False"
| "gtZero rt (Some (JBool b)) = b"
| "gtZero rt (Some (JNum n)) = (0 < n)"
| "gtZero rt (Some v) = coercedGtZero rt v"

section \<open>Configuration and transport\<close>

record env =
  NEXT_PUBLIC_ACCESS_TOKEN :: "jstring option"
  NEXT_PUBLIC_SHOP_URL :: "jstring option"

text \<open>
  \<open>!process.env.X\<close> holds for an unset variable and for the empty string. The
  session carries the access token for the request header.
\<close>

definition createSession :: "env \<Rightarrow> js_error + jstring" where
  "createSession e =
     (case (NEXT_PUBLIC_ACCESS_TOKEN e, NEXT_PUBLIC_SHOP_URL e) of
        (Some token, Some shop) \<Rightarrow>
          if token = [] \<or> shop = [] then Inl ConfigError else Inr token
      | _ \<Rightarrow> Inl ConfigError)"

text \<open>
  What \<open>fetch\<close> gives back: a rejection (network failure), or a response with its
  \<open>ok\<close> flag, its status, and what \<open>response.json()\<close> resolves to (\<open>Inl\<close> when
  the body is not JSON and the call rejects).
\<close>

record 'b http_response =
  ok :: bool
  status :: nat
  json_body :: "jstring + 'b"

datatype 'b fetch_outcome = Rejected jstring | Response "'b http_response"

section \<open>Catalog fetcher\<close>

text \<open>
  \<open>ShopifyProduct\<close> with the \<open>edges\<close>/\<open>node\<close> wrappers flattened to lists.
  The query asks for \<open>url\<close> and for \<open>src\<close> as an alias of \<open>url\<close>.
\<close>

record image_node =
  url :: jstring
  node_src :: jstring

record variant_node =
  v_id :: jstring
  price :: jstring
  v_title :: jstring
  inventoryQuantity :: int

record image_ref =
  src :: jstring

record ShopifyProduct =
  p_id :: jstring
  p_title :: jstring
  handle :: jstring
  description :: jstring
  images :: "image_node list"
  variants :: "variant_node list"
  image :: "image_ref option"

text \<open>The body of the catalog response: \<open>errors\<close> and \<open>data.products\<close>.\<close>

record products_body =
  errors :: "json option"
  data_products :: "ShopifyProduct list option"

definition withImage :: "ShopifyProduct \<Rightarrow> ShopifyProduct" where
  "withImage product =
     (if length (images product) > 0
      then product\<lparr>image := Some \<lparr>src = node_src (images product ! 0)\<rparr>\<rparr>
      else product\<lparr>image := Some \<lparr>src = []\<rparr>\<rparr>)"

definition getProducts ::
  "env \<Rightarrow> products_body fetch_outcome \<Rightarrow> js_error + ShopifyProduct list" where
  "getProducts e outcome =
     (case createSession e of
        Inl err \<Rightarrow> Inl err
      | Inr session \<Rightarrow>
          (case outcome of
             Rejected m \<Rightarrow> Inl (FetchRejected m)
           | Response response \<Rightarrow>
               if \<not> ok response then Inl (HttpError (status response))
               else (case json_body response of
                       Inl m \<Rightarrow> Inl (JsonRejected m)
                     | Inr body \<Rightarrow>
                         if truthy (errors body) then Inl GraphQLQueryFailed
                         else (case data_products body of
                                 None \<Rightarrow> Inl TypeError
                               | Some products \<Rightarrow> Inr (map withImage products)))))"

section \<open>Province lookup\<close>

definition SPANISH_PROVINCE_CODES :: "(jstring \<times> jstring) list" where
  "SPANISH_PROVINCE_CODES = [
    ([193] @ u ''lava'', u ''VI''),
    (u ''Albacete'', u ''AB''),
    (u ''Alicante'', u ''A''),
    (u ''Almer'' @ [237] @ u ''a'', u ''AL''),
    (u ''Asturias'', u ''O''),
    ([193] @ u ''vila'', u ''AV''),
    (u ''Badajoz'', u ''BA''),
    (u ''Barcelona'', u ''B''),
    (u ''Burgos'', u ''BU''),
    (u ''C'' @ [225] @ u ''ceres'', u ''CC''),
    (u ''C'' @ [225] @ u ''diz'', u ''CA''),
    (u ''Cantabria'', u ''S''),
    (u ''Castell'' @ [243] @ u ''n'', u ''CS''),
    (u ''Ciudad Real'', u ''CR''),
    (u ''C'' @ [243] @ u ''rdoba'', u ''CO''),
    (u ''La Coru'' @ [241] @ u ''a'', u ''C''),
    (u ''Cuenca'', u ''CU''),
    (u ''Gerona'', u ''GI''),
    (u ''Granada'', u ''GR''),
    (u ''Guadalajara'', u ''GU''),
    (u ''Guip'' @ [250] @ u ''zcoa'', u ''SS''),
    (u ''Huelva'', u ''H''),
    (u ''Huesca'', u ''HU''),
    (u ''Islas Baleares'', u ''PM''),
    (u ''Ja'' @ [233] @ u ''n'', u ''J''),
    (u ''Le'' @ [243] @ u ''n'', u ''LE''),
    (u ''L'' @ [233] @ u ''rida'', u ''L''),
    (u ''Lugo'', u ''LU''),
    (u ''Madrid'', u ''M''),
    (u ''M'' @ [225] @ u ''laga'', u ''MA''),
    (u ''Murcia'', u ''MU''),
    (u ''Navarra'', u ''NA''),
    (u ''Orense'', u ''OR''),
    (u ''Palencia'', u ''P''),
    (u ''Las Palmas'', u ''GC''),
    (u ''Pontevedra'', u ''PO''),
    (u ''La Rioja'', u ''LO''),
    (u ''Salamanca'', u ''SA''),
    (u ''Santa Cruz de Tenerife'', u ''TF''),
    (u ''Segovia'', u ''SG''),
    (u ''Sevilla'', u ''SE''),
    (u ''Soria'', u ''SO''),
    (u ''Tarragona'', u ''T''),
    (u ''Teruel'', u ''TE''),
    (u ''Toledo'', u ''TO''),
    (u ''Valencia'', u ''V''),
    (u ''Valladolid'', u ''VA''),
    (u ''Vizcaya'', u ''BI''),
    (u ''Zamora'', u ''ZA''),
    (u ''Zaragoza'', u ''Z'')
  ]"

text \<open>The \<open>replace\<close> call deletes every code unit from U+0300 to U+036F (the combining marks).\<close>

definition stripMarks :: "jstring \<Rightarrow> jstring" where
  "stripMarks s = filter (\<lambda>c. \<not> (768 \<le> c \<and> c \<le> 879)) s"

definition normalizedName :: "runtime \<Rightarrow> jstring \<Rightarrow> jstring" where
  "normalizedName rt s = toUpperCase rt (stripMarks (normalizeNFD rt s))"

text \<open>The loop over \<open>Object.entries\<close>, in insertion order, returning at the first match.\<close>

fun findCode :: "runtime \<Rightarrow> jstring \<Rightarrow> (jstring \<times> jstring) list \<Rightarrow> jstring option" where
  "findCode rt n [] = None"
| "findCode rt n ((name, code) # rest) =
     (if normalizedName rt name = n then Some code else findCode rt n rest)"

definition getProvinceCode :: "runtime \<Rightarrow> jstring \<Rightarrow> jstring" where
  "getProvinceCode rt provinceName =
     (case findCode rt (normalizedName rt provinceName) SPANISH_PROVINCE_CODES of
        Some code \<Rightarrow> code
      | None \<Rightarrow> provinceName)"


text \<open>
  A concrete runtime for evaluating the lookup: Unicode canonical decomposition and
  upper-casing on the code units below U+0100 (every other code unit is left as it
  is, so this runtime stands for the JavaScript one on strings of such code units
  only). No mark follows another there, so no reordering of marks arises.
\<close>

definition latin1_decomposition :: "(nat \<times> jstring) list" where
  "latin1_decomposition = [
    (192, [65, 768]), (193, [65, 769]), (194, [65, 770]), (195, [65, 771]), (196, [65, 776]), (197, [65, 778]),
    (199, [67, 807]), (200, [69, 768]), (201, [69, 769]), (202, [69, 770]), (203, [69, 776]), (204, [73, 768]),
    (205, [73, 769]), (206, [73, 770]), (207, [73, 776]), (209, [78, 771]), (210, [79, 768]), (211, [79, 769]),
    (212, [79, 770]), (213, [79, 771]), (214, [79, 776]), (217, [85, 768]), (218, [85, 769]), (219, [85, 770]),
    (220, [85, 776]), (221, [89, 769]), (224, [97, 768]), (225, [97, 769]), (226, [97, 770]), (227, [97, 771]),
    (228, [97, 776]), (229, [97, 778]), (231, [99, 807]), (232, [101, 768]), (233, [101, 769]), (234, [101, 770]),
    (235, [101, 776]), (236, [105, 768]), (237, [105, 769]), (238, [105, 770]), (239, [105, 776]), (241, [110, 771]),
    (242, [111, 768]), (243, [111, 769]), (244, [111, 770]), (245, [111, 771]), (246, [111, 776]), (249, [117, 768]),
    (250, [117, 769]), (251, [117, 770]), (252, [117, 776]), (253, [121, 769]), (255, [121, 776])
  ]"

definition decompose :: "nat \<Rightarrow> jstring" where
  "decompose c =
     (if c < 192 then [c]
      else (case map_of latin1_decomposition c of Some d \<Rightarrow> d | None \<Rightarrow> [c]))"

definition nfd_latin1 :: "jstring \<Rightarrow> jstring" where
  "nfd_latin1 s = concat (map decompose s)"

definition upper_unit :: "nat \<Rightarrow> jstring" where
  "upper_unit c =
     (if 97 \<le> c \<and> c \<le> 122 then [c - 32]
      else if c = 181 then [924]
      else if c = 223 then [83, 83]
      else if 224 \<le> c \<and> c \<le> 254 \<and> c \<noteq> 247 then [c - 32]
      else if c = 255 then [376]
      else [c])"

definition upper_latin1 :: "jstring \<Rightarrow> jstring" where
  "upper_latin1 s = concat (map upper_unit s)"

definition latin1_runtime :: runtime where
  "latin1_runtime =
     \<lparr>normalizeNFD = nfd_latin1, toUpperCase = upper_latin1, coercedGtZero = (\<lambda>v. False)\<rparr>"

section \<open>Order submitter\<close>

text \<open>
  The object that reaches \<open>createOrder\<close> at run time. The interface \<open>OrderInput\<close>
  declares \<open>productId\<close> and \<open>variantId\<close>; the single-selection form sets them, the
  cart form passes \<open>lineItems\<close> (pairs of variant id and quantity) and leaves them
  out, so that they read as \<open>undefined\<close>.
\<close>

record OrderInput =
  firstName :: jstring
  lastName :: jstring
  email :: jstring
  phone :: jstring
  address1 :: jstring
  city :: jstring
  zip :: jstring
  productId :: "jstring option"
  variantId :: "jstring option"
  lineItems :: "(jstring \<times> int) list option"

text \<open>The variables of the \<open>orderCreate\<close> mutation (\<open>shopMoney\<close> flattened).\<close>

record mailing_address =
  address1 :: jstring
  address2 :: jstring
  city :: jstring
  countryCode :: jstring
  firstName :: jstring
  lastName :: jstring
  phone :: jstring
  provinceCode :: jstring
  zip :: jstring

record order_line_item =
  variantId :: "jstring option"
  quantity :: int
  requiresShipping :: bool

record money =
  amount :: jstring
  currencyCode :: jstring

record shipping_line =
  priceSet :: money
  title :: jstring

record order_transaction =
  amountSet :: money
  kind :: jstring
  gateway :: jstring
  status :: jstring

record order_create_options =
  inventoryBehaviour :: jstring
  sendFulfillmentReceipt :: bool
  sendReceipt :: bool

record order_create_order =
  billingAddress :: mailing_address
  buyerAcceptsMarketing :: bool
  currency :: jstring
  email :: jstring
  financialStatus :: jstring
  lineItems :: "order_line_item list"
  note_o :: jstring
  shippingAddress :: mailing_address
  shippingLines :: "shipping_line list"
  tags :: "jstring list"
  taxesIncluded :: bool
  test :: bool
  transactions :: "order_transaction list"

record order_variables =
  options :: order_create_options
  order :: order_create_order

text \<open>\<open>s || d\<close> on a string: the default replaces the empty string.\<close>

definition orElse :: "jstring \<Rightarrow> jstring \<Rightarrow> jstring" where
  "orElse s d = (if s = [] then d else s)"

definition orderVariables :: "runtime \<Rightarrow> OrderInput \<Rightarrow> order_variables" where
  "orderVariables rt orderData =
     (let provinceCode = getProvinceCode rt (OrderInput.city orderData) in
      \<lparr>options =
         \<lparr>inventoryBehaviour = u ''DECREMENT_OBEYING_POLICY'',
          sendFulfillmentReceipt = True,
          sendReceipt = True\<rparr>,
       order =
         \<lparr>billingAddress =
            \<lparr>mailing_address.address1 = OrderInput.address1 orderData,
             address2 = [],
             mailing_address.city = OrderInput.city orderData,
             countryCode = u ''ES'',
             mailing_address.firstName = orElse (OrderInput.firstName orderData) (u ''Return''),
             mailing_address.lastName = orElse (OrderInput.lastName orderData) (u ''Return''),
             mailing_address.phone = orElse (OrderInput.phone orderData) (u ''+34608667749''),
             provinceCode = provinceCode,
             mailing_address.zip = OrderInput.zip orderData\<rparr>,
          buyerAcceptsMarketing = True,
          currency = u ''EUR'',
          order_create_order.email = OrderInput.email orderData,
          financialStatus = u ''PAID'',
          order_create_order.lineItems =
            [\<lparr>order_line_item.variantId = OrderInput.variantId orderData,
              quantity = 1,
              requiresShipping = True\<rparr>],
          note_o = u ''Pedido Pop Up'',
          shippingAddress =
            \<lparr>mailing_address.address1 = OrderInput.address1 orderData,
             address2 = [],
             mailing_address.city = OrderInput.city orderData,
             countryCode = u ''ES'',
             mailing_address.firstName = orElse (OrderInput.firstName orderData) (u ''Return''),
             mailing_address.lastName = orElse (OrderInput.lastName orderData) (u ''Return''),
             mailing_address.phone = orElse (OrderInput.phone orderData) (u ''+34608667749''),
             provinceCode = provinceCode,
             mailing_address.zip = OrderInput.zip orderData\<rparr>,
          shippingLines =
            [\<lparr>priceSet = \<lparr>amount = u ''4.00'', currencyCode = u ''EUR''\<rparr>,
              title = u ''Est'' @ [225] @ u ''ndar''\<rparr>],
          tags = [u ''Pop Up''],
          taxesIncluded = True,
          test = False,
          transactions =
            [\<lparr>amountSet = \<lparr>amount = u ''0.01'', currencyCode = u ''EUR''\<rparr>,
              kind = u ''SALE'',
              gateway = u ''manual'',
              status = u ''SUCCESS''\<rparr>]\<rparr>\<rparr>)"

text \<open>The POST that \<open>createOrder\<close> sends (the mutation text is a constant and left out).\<close>

record order_request =
  request_url :: jstring
  access_token :: jstring
  variables :: order_variables

text \<open>\<open>{success: true, data}\<close> or \<open>{success: false, error}\<close>.\<close>

datatype order_result = Success json | Failure json

text \<open>
  What \<open>createOrder\<close> does with the parsed body \<open>data\<close>. The logging condition
  reads \<open>data.errors\<close> without optional chaining, so a \<open>null\<close> body throws there;
  its other operand uses \<open>?.\<close> throughout and only decides what is logged.
  \<open>orderResponse\<close> and \<open>userErrors\<close> are read only after their truthiness test, where
  \<open>.\<close> and \<open>?.\<close> agree.
\<close>

definition classifyResponse :: "runtime \<Rightarrow> json \<Rightarrow> js_error + order_result" where
  "classifyResponse rt data =
     (case dot (Some data) P_errors of
        Inl err \<Rightarrow> Inl err
      | Inr logged \<Rightarrow>
          (let orderResponse = qdot (qdot (Some data) P_data) P_orderCreate in
           if \<not> truthy orderResponse
           then Inr (Failure (JStr (u ''Missing orderCreate field'')))
           else
             (let userErrors = qdot orderResponse P_userErrors in
              if truthy userErrors \<and> gtZero rt (qdot userErrors P_length)
              then Inr (Failure (case userErrors of Some e \<Rightarrow> e | None \<Rightarrow> JNull))
              else
                (let createdOrder = qdot orderResponse P_order in
                 case createdOrder of
                   Some v \<Rightarrow>
                     if truthy createdOrder then Inr (Success v)
                     else Inr (Failure (JStr (u ''Order not found in response'')))
                 | None \<Rightarrow> Inr (Failure (JStr (u ''Order not found in response'')))))))"

text \<open>
  \<open>createOrder\<close>: the requests it sends, and what it returns or throws. There is no
  test of \<open>response.ok\<close> on this path.
\<close>

definition createOrder ::
  "runtime \<Rightarrow> env \<Rightarrow> (order_request \<Rightarrow> json fetch_outcome) \<Rightarrow> OrderInput
     \<Rightarrow> order_request list \<times> (js_error + order_result)" where
  "createOrder rt e backend orderData =
     (case createSession e of
        Inl err \<Rightarrow> ([], Inl err)
      | Inr token \<Rightarrow>
          (let request =
             \<lparr>request_url =
                (case NEXT_PUBLIC_SHOP_URL e of Some shop \<Rightarrow> shop | None \<Rightarrow> u ''undefined'')
                  @ u ''/admin/api/2025-01/graphql.json'',
              access_token = token,
              variables = orderVariables rt orderData\<rparr>
           in ([request],
               (case backend request of
                  Rejected m \<Rightarrow> Inl (FetchRejected m)
                | Response response \<Rightarrow>
                    (case json_body response of
                       Inl m \<Rightarrow> Inl (JsonRejected m)
                     | Inr data \<Rightarrow> classifyResponse rt data)))))"

section \<open>Cart and form state\<close>

record OrderFormData =
  address1 :: jstring
  city :: jstring
  firstName :: jstring
  lastName :: jstring
  phone :: jstring
  zip :: jstring
  email :: jstring

record CartItem =
  productId :: jstring
  variantId :: jstring
  quantity :: int
  product :: ShopifyProduct
  variant :: variant_node

text \<open>
  The \<open>useState\<close> cells of \<open>OrderForm\<close>. Each handler runs against the state of
  the render it was created in; the model runs the handlers one after the other, each
  on the state the previous one left. The handlers' parameters \<open>product\<close>,
  \<open>variant\<close>, \<open>quantity\<close> and \<open>variantId\<close> are written \<open>p\<close>, \<open>v\<close>, \<open>q\<close> and \<open>vid\<close>.
\<close>

record form_state =
  formData :: OrderFormData
  cartItems :: "CartItem list"
  searchTerm :: jstring
  isSubmitting :: bool
  error :: "jstring option"
  success :: bool
  showProductModal :: bool

definition emptyFormData :: OrderFormData where
  "emptyFormData =
     \<lparr>OrderFormData.address1 = [], OrderFormData.city = [], OrderFormData.firstName = [],
      OrderFormData.lastName = [], OrderFormData.phone = [], OrderFormData.zip = [],
      OrderFormData.email = []\<rparr>"

definition initialForm :: form_state where
  "initialForm =
     \<lparr>formData = emptyFormData, cartItems = [], searchTerm = [], isSubmitting = False,
      error = None, success = False, showProductModal = False\<rparr>"

text \<open>\<open>Array.prototype.findIndex\<close>: the first index that satisfies the test, or \<open>-1\<close>.\<close>

fun findIndex :: "('a \<Rightarrow> bool) \<Rightarrow> 'a list \<Rightarrow> int" where
  "findIndex P [] = - 1"
| "findIndex P (x # xs) =
     (if P x then 0 else (let i = findIndex P xs in if i < 0 then - 1 else i + 1))"

definition addToCart ::
  "form_state \<Rightarrow> ShopifyProduct \<Rightarrow> variant_node \<Rightarrow> int \<Rightarrow> form_state" where
  "addToCart st p v q =
     (let existingItem = find (\<lambda>item. CartItem.variantId item = v_id v) (cartItems st);
          currentQuantity = (case existingItem of Some item \<Rightarrow> CartItem.quantity item | None \<Rightarrow> 0)
      in
      if currentQuantity + q > inventoryQuantity v
      then st\<lparr>error := Some (u ''Cannot add '' @ show_int q @ u '' more. Only ''
                 @ show_int (inventoryQuantity v - currentQuantity)
                 @ u '' available in stock.'')\<rparr>
      else
        (let existingItemIndex = findIndex (\<lambda>item. CartItem.variantId item = v_id v) (cartItems st) in
         (if existingItemIndex \<ge> 0
          then st\<lparr>cartItems :=
                 map (\<lambda>(index, item).
                        if int index = existingItemIndex
                        then item\<lparr>CartItem.quantity := CartItem.quantity item + q\<rparr>
                        else item)
                     (enumerate 0 (cartItems st))\<rparr>
          else st\<lparr>cartItems :=
                 cartItems st @
                   [\<lparr>productId = p_id p,
                     variantId = v_id v,
                     quantity = q,
                     product = p,
                     variant = v\<rparr>]\<rparr>)
         \<lparr>showProductModal := False, error := None\<rparr>))"

definition removeFromCart :: "form_state \<Rightarrow> jstring \<Rightarrow> form_state" where
  "removeFromCart st vid =
     st\<lparr>cartItems := filter (\<lambda>item. CartItem.variantId item \<noteq> vid) (cartItems st)\<rparr>"

definition updateQuantity :: "form_state \<Rightarrow> jstring \<Rightarrow> int \<Rightarrow> form_state" where
  "updateQuantity st vid q =
     (if q \<le> 0 then removeFromCart st vid
      else
        (case find (\<lambda>item. CartItem.variantId item = vid) (cartItems st) of
           Some item \<Rightarrow>
             if q > inventoryQuantity (variant item)
             then st\<lparr>error := Some (u ''Cannot set quantity to '' @ show_int q @ u ''. Only ''
                        @ show_int (inventoryQuantity (variant item))
                        @ u '' available in stock.'')\<rparr>
             else st\<lparr>cartItems :=
                    map (\<lambda>item. if CartItem.variantId item = vid
                                then item\<lparr>CartItem.quantity := q\<rparr> else item)
                        (cartItems st),
                    error := None\<rparr>
         | None \<Rightarrow>
             st\<lparr>cartItems :=
                  map (\<lambda>item. if CartItem.variantId item = vid
                              then item\<lparr>CartItem.quantity := q\<rparr> else item)
                      (cartItems st),
                error := None\<rparr>))"

definition getTotalItems :: "form_state \<Rightarrow> int" where
  "getTotalItems st = fold (\<lambda>item total. total + CartItem.quantity item) (cartItems st) 0"

text \<open>
  The \<open>message\<close> of what \<open>createOrder\<close> throws, as the form shows it (the text of a
  runtime error is the runtime's; a fixed one stands for the TypeError).
\<close>

fun message :: "js_error \<Rightarrow> jstring" where
  "message ConfigError = u ''Missing Shopify access token or shop URL''"
| "message (HttpError n) = u ''HTTP error! status: '' @ show_nat n"
| "message GraphQLQueryFailed = u ''GraphQL query failed''"
| "message (FetchRejected m) = m"
| "message (JsonRejected m) = m"
| "message TypeError = u ''Cannot read properties of null''"

text \<open>
  \<open>handleSubmit\<close> of the cart form: the requests sent and the state it leaves. The
  value that \<open>createOrder\<close> returns is not looked at; only a throw reaches the
  \<open>catch\<close>.
\<close>

definition handleSubmit ::
  "runtime \<Rightarrow> env \<Rightarrow> (order_request \<Rightarrow> json fetch_outcome) \<Rightarrow> form_state
     \<Rightarrow> order_request list \<times> form_state" where
  "handleSubmit rt e backend st =
     (if length (cartItems st) = 0
      then ([], st\<lparr>error := Some (u ''Please add at least one product to your cart'')\<rparr>)
      else
        (let orderData =
           \<lparr>OrderInput.firstName = OrderFormData.firstName (formData st),
            OrderInput.lastName = OrderFormData.lastName (formData st),
            OrderInput.email = OrderFormData.email (formData st),
            OrderInput.phone = OrderFormData.phone (formData st),
            OrderInput.address1 = OrderFormData.address1 (formData st),
            OrderInput.city = OrderFormData.city (formData st),
            OrderInput.zip = OrderFormData.zip (formData st),
            productId = None,
            OrderInput.variantId = None,
            OrderInput.lineItems =
              Some (map (\<lambda>item. (CartItem.variantId item, CartItem.quantity item)) (cartItems st))\<rparr>
         in case createOrder rt e backend orderData of
              (sent, Inr result) \<Rightarrow>
                (sent, st\<lparr>isSubmitting := False, error := None, success := True,
                          formData := emptyFormData, cartItems := []\<rparr>)
            | (sent, Inl err) \<Rightarrow>
                (sent, st\<lparr>isSubmitting := False, error := Some (message err),
                          success := False\<rparr>)))"

section \<open>Script loader\<close>

text \<open>
  The module-level variables \<open>isScriptLoaded\<close> and \<open>scriptLoadPromise\<close>, the
  promises created so far (a promise is its index in \<open>promises\<close>), and the script
  elements of the document. An element created by the loader remembers the promise
  that its \<open>onload\<close> and \<open>onerror\<close> handlers settle; any other element has none.
\<close>

datatype promise_state = Pending | Fulfilled | Broken

record script_element =
  script_src :: jstring
  settles :: "nat option"

record loader_state =
  isScriptLoaded :: bool
  scriptLoadPromise :: "nat option"
  promises :: "promise_state list"
  document_scripts :: "script_element list"

text \<open>The selector \<open>script[src*="maps.googleapis.com/maps/api/js"]\<close>: \<open>src\<close> contains the text.\<close>

fun startsWith :: "jstring \<Rightarrow> jstring \<Rightarrow> bool" where
  "startsWith s [] = True"
| "startsWith [] (c # cs) = False"
| "startsWith (d # ds) (c # cs) = (d = c \<and> startsWith ds cs)"

fun includes_text :: "jstring \<Rightarrow> jstring \<Rightarrow> bool" where
  "includes_text [] t = (t = [])"
| "includes_text (d # ds) t = (startsWith (d # ds) t \<or> includes_text ds t)"

definition existingScript :: "script_element list \<Rightarrow> bool" where
  "existingScript doc =
     list_ex (\<lambda>el. includes_text (script_src el) (u ''maps.googleapis.com/maps/api/js'')) doc"

definition scriptUrl :: "jstring option \<Rightarrow> jstring" where
  "scriptUrl key =
     u ''https://maps.googleapis.com/maps/api/js?key=''
       @ (case key of Some k \<Rightarrow> k | None \<Rightarrow> u ''undefined'')
       @ u ''&libraries=places&loading=async''"

text \<open>Settling a promise changes it only while it is pending.\<close>

definition settle :: "promise_state \<Rightarrow> nat \<Rightarrow> promise_state list \<Rightarrow> promise_state list" where
  "settle outcome p ps = (if p < length ps \<and> ps ! p = Pending then ps[p := outcome] else ps)"

text \<open>\<open>loadGoogleMapsScript\<close>: the promise it returns, and the state it leaves.\<close>

definition loadGoogleMapsScript :: "jstring option \<Rightarrow> loader_state \<Rightarrow> nat \<times> loader_state" where
  "loadGoogleMapsScript key s =
     (if isScriptLoaded s
      then (length (promises s), s\<lparr>promises := promises s @ [Fulfilled]\<rparr>)
      else
        (case scriptLoadPromise s of
           Some cached \<Rightarrow> (cached, s)
         | None \<Rightarrow>
             (let created = length (promises s) in
              if existingScript (document_scripts s)
              then (created,
                    s\<lparr>isScriptLoaded := True,
                      promises := promises s @ [Fulfilled],
                      scriptLoadPromise := Some created\<rparr>)
              else (created,
                    s\<lparr>promises := promises s @ [Pending],
                      document_scripts :=
                        document_scripts s @ [\<lparr>script_src = scriptUrl key, settles = Some created\<rparr>],
                      scriptLoadPromise := Some created\<rparr>))))"

text \<open>The handlers that the loader puts on the element it creates.\<close>

definition onload :: "nat \<Rightarrow> loader_state \<Rightarrow> loader_state" where
  "onload i s =
     (if i < length (document_scripts s)
      then (case settles (document_scripts s ! i) of
              Some p \<Rightarrow> s\<lparr>isScriptLoaded := True, promises := settle Fulfilled p (promises s)\<rparr>
            | None \<Rightarrow> s)
      else s)"

definition onerror :: "nat \<Rightarrow> loader_state \<Rightarrow> loader_state" where
  "onerror i s =
     (if i < length (document_scripts s)
      then (case settles (document_scripts s ! i) of
              Some p \<Rightarrow> s\<lparr>promises := settle Broken p (promises s)\<rparr>
            | None \<Rightarrow> s)
      else s)"

text \<open>
  What can happen to the loader: a call, or the load or error event of the \<open>i\<close>-th
  script element. \<open>run\<close> collects the promises that the calls return, in order.
\<close>

datatype loader_event = Call | ScriptLoaded nat | ScriptFailed nat

fun run :: "jstring option \<Rightarrow> loader_event list \<Rightarrow> nat list \<times> loader_state
              \<Rightarrow> nat list \<times> loader_state" where
  "run key [] (returned, s) = (returned, s)"
| "run key (Call # evs) (returned, s) =
     (case loadGoogleMapsScript key s of (p, s') \<Rightarrow> run key evs (returned @ [p], s'))"
| "run key (ScriptLoaded i # evs) (returned, s) = run key evs (returned, onload i s)"
| "run key (ScriptFailed i # evs) (returned, s) = run key evs (returned, onerror i s)"

text \<open>The module as first loaded, in a document that holds the scripts \<open>srcs\<close>.\<close>

definition initialLoader :: "jstring list \<Rightarrow> loader_state" where
  "initialLoader srcs =
     \<lparr>isScriptLoaded = False,
      scriptLoadPromise = None,
      promises = [],
      document_scripts = map (\<lambda>src. \<lparr>script_src = src, settles = None\<rparr>) srcs\<rparr>"

definition injected :: "loader_state \<Rightarrow> nat" where
  "injected s = length (filter (\<lambda>el. settles el \<noteq> None) (document_scripts s))"

section \<open>Place selection\<close>

record address_component =
  long_name :: jstring
  short_name :: jstring
  types :: "jstring list"

record Place =
  address_components :: "address_component list option"
  formatted_address :: "jstring option"
  name :: "jstring option"

text \<open>The argument of \<open>onAddressSelect\<close>.\<close>

record selected_address =
  street :: jstring
  city :: jstring
  zip :: jstring

text \<open>One round of the loop over \<open>place.address_components\<close>.\<close>

definition parseComponent :: "selected_address \<Rightarrow> address_component \<Rightarrow> selected_address" where
  "parseComponent acc component =
     (let street1 =
            (if u ''route'' \<in> set (types component) \<or> u ''street_number'' \<in> set (types component)
             then (if street acc \<noteq> [] then street acc @ u '' '' @ long_name component
                   else long_name component)
             else street acc);
          city1 =
            (if u ''locality'' \<in> set (types component)
                \<or> u ''administrative_area_level_2'' \<in> set (types component)
             then long_name component else selected_address.city acc);
          zip1 =
            (if u ''postal_code'' \<in> set (types component)
             then long_name component else selected_address.zip acc)
      in \<lparr>street = street1, city = city1, zip = zip1\<rparr>)"

text \<open>
  \<open>handlePlaceChanged\<close>: the address handed to \<open>onAddressSelect\<close>, or \<open>None\<close> when
  the callback is not called (no place, or a place without \<open>address_components\<close>).
\<close>

definition handlePlaceChanged :: "Place option \<Rightarrow> selected_address option" where
  "handlePlaceChanged place =
     (case place of
        None \<Rightarrow> None
      | Some pl \<Rightarrow>
          (case address_components pl of
             None \<Rightarrow> None
           | Some components \<Rightarrow>
               (let parsed = foldl parseComponent \<lparr>street = [], city = [], zip = []\<rparr> components;
                    street2 =
                      (case formatted_address pl of
                         Some formatted \<Rightarrow>
                           if street parsed = [] \<and> formatted \<noteq> [] then formatted
                           else street parsed
                       | None \<Rightarrow> street parsed)
                in Some \<lparr>street = street2,
                         city = selected_address.city parsed,
                         zip = selected_address.zip parsed\<rparr>)))"

section \<open>Vocabulary of the properties\<close>

subsection \<open>Sequences of cart handlers\<close>

datatype cart_action =
    AddToCart ShopifyProduct variant_node int
  | UpdateQuantity jstring int
  | RemoveFromCart jstring

fun perform :: "form_state \<Rightarrow> cart_action \<Rightarrow> form_state" where
  "perform st (AddToCart p v q) = addToCart st p v q"
| "perform st (UpdateQuantity vid q) = updateQuantity st vid q"
| "perform st (RemoveFromCart vid) = removeFromCart st vid"

definition performAll :: "form_state \<Rightarrow> cart_action list \<Rightarrow> form_state" where
  "performAll st acts = foldl perform st acts"

fun addedVariants :: "cart_action list \<Rightarrow> variant_node list" where
  "addedVariants [] = []"
| "addedVariants (AddToCart p v q # acts) = v # addedVariants acts"
| "addedVariants (a # acts) = addedVariants acts"

text \<open>A variant id stands for one variant, with one stock count.\<close>

definition oneStockPerVariant :: "variant_node list \<Rightarrow> bool" where
  "oneStockPerVariant vs =
     list_all (\<lambda>v. list_all (\<lambda>w. v_id v = v_id w \<longrightarrow> inventoryQuantity v = inventoryQuantity w) vs) vs"

definition withinStock :: "form_state \<Rightarrow> bool" where
  "withinStock st =
     list_all (\<lambda>item. CartItem.quantity item \<le> inventoryQuantity (variant item)) (cartItems st)"

text \<open>The quantity that the cart holds of a variant: \<open>currentQuantity\<close> of \<open>addToCart\<close>.\<close>

definition cartQuantity :: "form_state \<Rightarrow> jstring \<Rightarrow> int" where
  "cartQuantity st vid =
     (case find (\<lambda>item. CartItem.variantId item = vid) (cartItems st) of
        Some item \<Rightarrow> CartItem.quantity item
      | None \<Rightarrow> 0)"

subsection \<open>Parts of a selected place\<close>

definition isStreetPart :: "address_component \<Rightarrow> bool" where
  "isStreetPart c = (u ''route'' \<in> set (types c) \<or> u ''street_number'' \<in> set (types c))"

definition isCityPart :: "address_component \<Rightarrow> bool" where
  "isCityPart c =
     (u ''locality'' \<in> set (types c) \<or> u ''administrative_area_level_2'' \<in> set (types c))"

definition isZipPart :: "address_component \<Rightarrow> bool" where
  "isZipPart c = (u ''postal_code'' \<in> set (types c))"

text \<open>The texts joined by single spaces, as \<open>Array.prototype.join(" ")\<close> does.\<close>

fun spaceJoin :: "jstring list \<Rightarrow> jstring" where
  "spaceJoin [] = []"
| "spaceJoin (n # ns) = n @ concat (map (\<lambda>m. u '' '' @ m) ns)"

text \<open>The \<open>long_name\<close> of the last component of a kind, or the empty string.\<close>

definition lastLongName :: "(address_component \<Rightarrow> bool) \<Rightarrow> address_component list \<Rightarrow> jstring" where
  "lastLongName P cs = (case rev (filter P cs) of [] \<Rightarrow> [] | c # older \<Rightarrow> long_name c)"

subsection \<open>The accent-stripped uppercase form\<close>








subsection \<open>Invariants\<close>

text \<open>
  A cart item is in order, relative to the variants \<open>vs\<close> offered so far: it holds
  one of them, under that variant's id, in a quantity within its stock.
\<close>

definition itemOk :: "variant_node list \<Rightarrow> CartItem \<Rightarrow> bool" where
  "itemOk vs item =
     (variant item \<in> set vs \<and> CartItem.variantId item = v_id (variant item)
      \<and> CartItem.quantity item \<le> inventoryQuantity (variant item))"

definition cartInv :: "variant_node list \<Rightarrow> form_state \<Rightarrow> bool" where
  "cartInv vs st = (\<forall>item\<in>set (cartItems st). itemOk vs item)"

text \<open>
  The loader after some events, in a document that began with \<open>n\<close> scripts: the cached
  promise is the one the first call returned, and nothing is injected before it.
\<close>

definition loaderInv :: "nat \<Rightarrow> nat list \<times> loader_state \<Rightarrow> bool" where
  "loaderInv n rs =
     (case rs of (returned, s) \<Rightarrow>
        (returned = [] \<longrightarrow> scriptLoadPromise s = None)
      \<and> (returned \<noteq> [] \<longrightarrow> scriptLoadPromise s = Some (hd returned))
      \<and> (scriptLoadPromise s = None \<longrightarrow> \<not> isScriptLoaded s \<and> injected s = 0)
      \<and> injected s \<le> 1
      \<and> length (document_scripts s) = n + injected s)"

subsection \<open>Sample data\<close>

definition demoEnv :: env where
  "demoEnv =
     \<lparr>NEXT_PUBLIC_ACCESS_TOKEN = Some (u ''token''),
      NEXT_PUBLIC_SHOP_URL = Some (u ''https://shop.example'')\<rparr>"

definition demoVariant :: variant_node where
  "demoVariant = \<lparr>v_id = u ''v1'', price = u ''10.00'', v_title = u ''M'', inventoryQuantity = 3\<rparr>"

definition demoProduct :: ShopifyProduct where
  "demoProduct =
     \<lparr>p_id = u ''p1'', p_title = u ''Shirt'', handle = u ''shirt'', description = [],
      images = [], variants = [demoVariant], image = None\<rparr>"

definition demoPictured :: ShopifyProduct where
  "demoPictured =
     \<lparr>p_id = u ''p2'', p_title = u ''Cap'', handle = u ''cap'', description = [],
      images = [\<lparr>url = u ''https://cdn.example/cap.png'', node_src = u ''https://cdn.example/cap.png''\<rparr>],
      variants = [], image = None\<rparr>"

definition demoCatalog :: "products_body fetch_outcome" where
  "demoCatalog =
     Response \<lparr>ok = True, status = 200,
               json_body = Inr \<lparr>errors = None, data_products = Some [demoProduct, demoPictured]\<rparr>\<rparr>"

definition demoOrder :: OrderInput where
  "demoOrder =
     \<lparr>OrderInput.firstName = [], OrderInput.lastName = [], OrderInput.email = u ''a@b.es'',
      OrderInput.phone = [], OrderInput.address1 = u ''Calle Mayor 1'',
      OrderInput.city = u ''Madrid'', OrderInput.zip = u ''28013'',
      productId = Some (u ''p1''), OrderInput.variantId = Some (u ''v1''),
      OrderInput.lineItems = None\<rparr>"

definition demoActions :: "cart_action list" where
  "demoActions = [AddToCart demoProduct demoVariant 2, AddToCart demoProduct demoVariant 2]"

text \<open>The loader after two calls in an empty document, and after the script's load event.\<close>

definition demoWaiting :: loader_state where
  "demoWaiting =
     \<lparr>isScriptLoaded = False, scriptLoadPromise = Some 0, promises = [Pending],
      document_scripts = [\<lparr>script_src = scriptUrl None, settles = Some 0\<rparr>]\<rparr>"

definition demoLoaded :: loader_state where
  "demoLoaded =
     \<lparr>isScriptLoaded = True, scriptLoadPromise = Some 0, promises = [Fulfilled],
      document_scripts = [\<lparr>script_src = scriptUrl None, settles = Some 0\<rparr>]\<rparr>"

definition demoPlace :: Place where
  "demoPlace =
     \<lparr>address_components = Some
        [\<lparr>long_name = u ''12'', short_name = u ''12'', types = [u ''street_number'']\<rparr>,
         \<lparr>long_name = u ''Calle Mayor'', short_name = u ''C. Mayor'', types = [u ''route'']\<rparr>,
         \<lparr>long_name = u ''Madrid'', short_name = u ''Madrid'', types = [u ''locality'', u ''political'']\<rparr>],
      formatted_address = Some (u ''Calle Mayor, 12, Madrid''),
      name = None\<rparr>"

section \<open>Catalog fetcher: properties\<close>

lemma demoEnv_session: "createSession demoEnv = Inr (u ''token'')"
  by (simp add: createSession_def demoEnv_def u_def)

lemma getProducts_http_error:
  "createSession e = Inr token \<Longrightarrow> \<not> ok response \<Longrightarrow>
   getProducts e (Response response) = Inl (HttpError (http_response.status response))"
  by (simp add: getProducts_def)

lemma getProducts_not_ok_throws:
  "\<not> ok response \<Longrightarrow> \<exists>err. getProducts e (Response response) = Inl err"
  by (simp add: getProducts_def split: sum.splits)

text \<open>
  C6. Every product that \<open>getProducts\<close> returns has an \<open>image\<close>: its \<open>src\<close> is the
  empty string when the product has no images, and the \<open>src\<close> of the first image
  otherwise, which is that image's URL wherever the backend answers the alias
  \<open>src: url\<close> with the URL.
\<close>

theorem getProducts_image_src:
  assumes "getProducts e outcome = Inr products" and "p \<in> set products"
  shows "(images p = [] \<longrightarrow> image p = Some \<lparr>src = []\<rparr>)
       \<and> (images p \<noteq> [] \<longrightarrow>
            image p = Some \<lparr>src = node_src (hd (images p))\<rparr>
            \<and> (node_src (hd (images p)) = url (hd (images p)) \<longrightarrow>
                   image p = Some \<lparr>src = url (hd (images p))\<rparr>))"
proof -
  from assms(1) obtain raw where "products = map withImage raw"
    by (auto simp: getProducts_def split: sum.splits fetch_outcome.splits if_splits option.splits)
  with assms(2) obtain r where "p = withImage r" by auto
  then show ?thesis by (cases "images r") (simp_all add: withImage_def)
qed

theorem getProducts_image_src_witness:
  "getProducts demoEnv demoCatalog = Inr [withImage demoProduct, withImage demoPictured]
   \<and> images (withImage demoProduct) = []
   \<and> image (withImage demoProduct) = Some \<lparr>src = []\<rparr>
   \<and> images (withImage demoPictured) \<noteq> []
   \<and> image (withImage demoPictured) = Some \<lparr>src = u ''https://cdn.example/cap.png''\<rparr>"
proof -
  have run: "getProducts demoEnv demoCatalog = Inr [withImage demoProduct, withImage demoPictured]"
    by (simp add: getProducts_def demoEnv_session demoCatalog_def)
  have plain: "images (withImage demoProduct) = []"
    by (simp add: withImage_def demoProduct_def)
  have pictured: "images (withImage demoPictured) \<noteq> []"
    and firstUrl: "url (hd (images (withImage demoPictured))) = u ''https://cdn.example/cap.png''"
    and aliased: "node_src (hd (images (withImage demoPictured))) = url (hd (images (withImage demoPictured)))"
    by (simp_all add: withImage_def demoPictured_def)
  have "image (withImage demoProduct) = Some \<lparr>src = []\<rparr>"
    using getProducts_image_src [OF run, of "withImage demoProduct"] plain by simp
  moreover have "image (withImage demoPictured) = Some \<lparr>src = u ''https://cdn.example/cap.png''\<rparr>"
    using getProducts_image_src [OF run, of "withImage demoPictured"] pictured aliased firstUrl by simp
  ultimately show ?thesis using run plain pictured by blast
qed

section \<open>Order submitter: properties\<close>

lemma createOrder_sends_once:
  "createSession e = Inr token \<Longrightarrow>
   \<exists>request. fst (createOrder rt e backend orderData) = [request]
            \<and> variables request = orderVariables rt orderData"
  by (simp add: createOrder_def Let_def)

lemma createOrder_sent_variables:
  "request \<in> set (fst (createOrder rt e backend orderData))
     \<Longrightarrow> variables request = orderVariables rt orderData"
  by (auto simp: createOrder_def Let_def split: sum.splits)

lemma orderVariables_lineItems:
  "order_create_order.lineItems (order (orderVariables rt orderData)) =
     [\<lparr>order_line_item.variantId = OrderInput.variantId orderData,
       quantity = 1, requiresShipping = True\<rparr>]"
  by (simp add: orderVariables_def Let_def)

lemma demoCart:
  "cartItems (addToCart initialForm demoProduct demoVariant 2) =
     [\<lparr>productId = u ''p1'', variantId = u ''v1'', quantity = 2,
       product = demoProduct, variant = demoVariant\<rparr>]"
  by (simp add: addToCart_def initialForm_def demoVariant_def demoProduct_def Let_def)

text \<open>
  C1. The cart form submits a cart that holds variant \<open>v1\<close> with quantity 2: one request
  is sent, and its only line item has no variant id and quantity 1. \<open>createOrder\<close>
  reads \<open>orderData.variantId\<close>, which the cart form does not set, and fixes the
  quantity; the \<open>lineItems\<close> that the form passes are not read.
\<close>

theorem handleSubmit_ignores_cart_lines:
  "map (\<lambda>request. order_create_order.lineItems (order (variables request)))
       (fst (handleSubmit rt demoEnv backend (addToCart initialForm demoProduct demoVariant 2)))
   = [[\<lparr>order_line_item.variantId = None, quantity = 1, requiresShipping = True\<rparr>]]"
proof -
  let ?st = "addToCart initialForm demoProduct demoVariant 2"
  let ?orderData =
    "\<lparr>OrderInput.firstName = OrderFormData.firstName (formData ?st),
      OrderInput.lastName = OrderFormData.lastName (formData ?st),
      OrderInput.email = OrderFormData.email (formData ?st),
      OrderInput.phone = OrderFormData.phone (formData ?st),
      OrderInput.address1 = OrderFormData.address1 (formData ?st),
      OrderInput.city = OrderFormData.city (formData ?st),
      OrderInput.zip = OrderFormData.zip (formData ?st),
      productId = None,
      OrderInput.variantId = None,
      OrderInput.lineItems =
        Some (map (\<lambda>item. (CartItem.variantId item, CartItem.quantity item)) (cartItems ?st))\<rparr>"
  have sent: "fst (handleSubmit rt demoEnv backend ?st) = fst (createOrder rt demoEnv backend ?orderData)"
    by (simp add: handleSubmit_def demoCart Let_def split: prod.splits sum.splits)
  obtain request where "fst (createOrder rt demoEnv backend ?orderData) = [request]"
    and "variables request = orderVariables rt ?orderData"
    using createOrder_sends_once [OF demoEnv_session] by blast
  then show ?thesis using sent by (simp add: orderVariables_lineItems)
qed

text \<open>
  C2. A response with status 401 whose body is JSON and carries \<open>errors\<close>:
  \<open>createOrder\<close> does not throw, it returns a failure result. (\<open>getProducts\<close> does
  throw on every response that is not \<open>ok\<close>: \<open>getProducts_http_error\<close>.)
\<close>

theorem createOrder_returns_on_http_failure:
  "snd (createOrder rt demoEnv
          (\<lambda>request. Response \<lparr>ok = False, status = 401,
             json_body = Inr (JObj [(u ''errors'', JStr (u ''Invalid API key or access token''))])\<rparr>)
          orderData)
   = Inr (Failure (JStr (u ''Missing orderCreate field'')))"
  by (simp add: createOrder_def demoEnv_session Let_def classifyResponse_def u_def)

lemma handleSubmit_reports_success_on_http_failure:
  "success (snd (handleSubmit rt demoEnv
      (\<lambda>request. Response \<lparr>ok = False, status = 401,
         json_body = Inr (JObj [(u ''errors'', JStr (u ''Invalid API key or access token''))])\<rparr>)
      (addToCart initialForm demoProduct demoVariant 2)))"
  by (simp add: handleSubmit_def demoCart createOrder_def demoEnv_session Let_def
        classifyResponse_def u_def)

text \<open>
  C3. A body that parses to \<open>null\<close>: the read of \<open>data.errors\<close> in the logging condition
  throws, and \<open>createOrder\<close> rethrows. Every other body is classified without a throw
  (\<open>classifyResponse_returns\<close>), in the way \<open>classifyResponse_shapes\<close> states.
\<close>

theorem createOrder_throws_on_null_body:
  "snd (createOrder rt demoEnv
          (\<lambda>request. Response \<lparr>ok = True, status = 200, json_body = Inr JNull\<rparr>) orderData)
   = Inl TypeError"
  by (simp add: createOrder_def demoEnv_session Let_def classifyResponse_def)

lemma classifyResponse_returns:
  "data \<noteq> JNull \<Longrightarrow> \<exists>result. classifyResponse rt data = Inr result"
  by (cases data) (simp_all add: classifyResponse_def Let_def split: option.splits)

lemma classifyResponse_missing_orderCreate:
  "data \<noteq> JNull \<Longrightarrow> \<not> truthy (qdot (qdot (Some data) P_data) P_orderCreate) \<Longrightarrow>
   classifyResponse rt data = Inr (Failure (JStr (u ''Missing orderCreate field'')))"
  by (cases data) (simp_all add: classifyResponse_def Let_def)

lemma classifyResponse_shapes:
  assumes "map_of (rev members) (u ''data'') = Some (JObj d)"
    and "map_of (rev d) (u ''orderCreate'') = Some (JObj oc)"
  shows "(map_of (rev oc) (u ''userErrors'') = Some (JArr (e # es)) \<longrightarrow>
            classifyResponse rt (JObj members) = Inr (Failure (JArr (e # es))))
       \<and> (map_of (rev oc) (u ''userErrors'') \<in> {None, Some JNull, Some (JArr [])} \<longrightarrow>
            (map_of (rev oc) (u ''order'') = Some (JObj created) \<longrightarrow>
               classifyResponse rt (JObj members) = Inr (Success (JObj created)))
          \<and> (map_of (rev oc) (u ''order'') \<in> {None, Some JNull} \<longrightarrow>
               classifyResponse rt (JObj members) =
                 Inr (Failure (JStr (u ''Order not found in response'')))))"
  using assms by (auto simp: classifyResponse_def Let_def)

text \<open>
  C9. In every request that \<open>createOrder\<close> sends, an empty first name, last name or
  phone is replaced by \<open>Return\<close>, \<open>Return\<close> and \<open>+34608667749\<close>, in the billing and in
  the shipping address alike; neither address carries an empty one.
\<close>

theorem createOrder_contact_defaults:
  assumes "request \<in> set (fst (createOrder rt e backend orderData))"
  shows "(OrderInput.firstName orderData = [] \<longrightarrow>
            mailing_address.firstName (billingAddress (order (variables request))) = u ''Return''
          \<and> mailing_address.firstName (shippingAddress (order (variables request))) = u ''Return'')
       \<and> (OrderInput.lastName orderData = [] \<longrightarrow>
            mailing_address.lastName (billingAddress (order (variables request))) = u ''Return''
          \<and> mailing_address.lastName (shippingAddress (order (variables request))) = u ''Return'')
       \<and> (OrderInput.phone orderData = [] \<longrightarrow>
            mailing_address.phone (billingAddress (order (variables request))) = u ''+34608667749''
          \<and> mailing_address.phone (shippingAddress (order (variables request))) = u ''+34608667749'')
       \<and> mailing_address.firstName (billingAddress (order (variables request))) \<noteq> []
       \<and> mailing_address.lastName (billingAddress (order (variables request))) \<noteq> []
       \<and> mailing_address.phone (billingAddress (order (variables request))) \<noteq> []
       \<and> billingAddress (order (variables request)) = shippingAddress (order (variables request))"
proof -
  from assms have "variables request = orderVariables rt orderData"
    by (rule createOrder_sent_variables)
  then show ?thesis by (simp add: orderVariables_def Let_def orElse_def u_def)
qed

theorem createOrder_contact_defaults_witness:
  "\<exists>request. request \<in> set (fst (createOrder latin1_runtime demoEnv (\<lambda>r. Rejected []) demoOrder))
     \<and> OrderInput.firstName demoOrder = []
     \<and> OrderInput.lastName demoOrder = []
     \<and> OrderInput.phone demoOrder = []
     \<and> mailing_address.firstName (billingAddress (order (variables request))) = u ''Return''
     \<and> mailing_address.lastName (shippingAddress (order (variables request))) = u ''Return''
     \<and> mailing_address.phone (shippingAddress (order (variables request))) = u ''+34608667749''"
proof -
  obtain request where sent: "fst (createOrder latin1_runtime demoEnv (\<lambda>r. Rejected []) demoOrder) = [request]"
    using createOrder_sends_once [OF demoEnv_session] by blast
  then have mem: "request \<in> set (fst (createOrder latin1_runtime demoEnv (\<lambda>r. Rejected []) demoOrder))"
    by simp
  have empty: "OrderInput.firstName demoOrder = []" "OrderInput.lastName demoOrder = []"
    "OrderInput.phone demoOrder = []"
    by (simp_all add: demoOrder_def)
  from createOrder_contact_defaults [OF mem] empty mem show ?thesis by blast
qed

section \<open>Cart: properties\<close>

lemma findIndex_bounds: "findIndex P xs = - 1 \<or> (0 \<le> findIndex P xs \<and> findIndex P xs < int (length xs))"
  by (induction xs) (auto simp: Let_def)

lemma findIndex_none: "find P xs = None \<Longrightarrow> findIndex P xs = - 1"
  by (induction xs) (auto simp: Let_def split: if_splits)

lemma findIndex_some:
  "find P xs = Some x \<Longrightarrow> \<exists>k. findIndex P xs = int k \<and> k < length xs \<and> xs ! k = x"
proof (induction xs)
  case Nil
  then show ?case by simp
next
  case (Cons y ys)
  show ?case
  proof (cases "P y")
    case True
    with Cons.prems have "y = x" by simp
    with True show ?thesis by (intro exI [of _ 0]) simp
  next
    case False
    with Cons.prems have "find P ys = Some x" by simp
    from Cons.IH [OF this] obtain k where k: "findIndex P ys = int k" "k < length ys" "ys ! k = x"
      by blast
    with False show ?thesis by (intro exI [of _ "Suc k"]) (simp add: Let_def)
  qed
qed

lemma map_enumerate_at:
  "k < length xs \<Longrightarrow>
   map (\<lambda>(index, item). if int index = int k then f item else item) (enumerate 0 xs)
     = xs[k := f (xs ! k)]"
  by (rule nth_equalityI) (simp_all add: nth_enumerate_eq nth_list_update)

lemma addToCart_rejected:
  "cartQuantity st (v_id v) + q > inventoryQuantity v \<Longrightarrow>
   \<exists>msg. addToCart st p v q = st\<lparr>error := Some msg\<rparr>"
  by (simp add: addToCart_def cartQuantity_def Let_def) (rule exI, rule refl)

lemma addToCart_new:
  assumes "\<not> cartQuantity st (v_id v) + q > inventoryQuantity v"
    and "find (\<lambda>item. CartItem.variantId item = v_id v) (cartItems st) = None"
  shows "cartItems (addToCart st p v q) =
     cartItems st @ [\<lparr>productId = p_id p, variantId = v_id v, quantity = q, product = p, variant = v\<rparr>]"
  using assms by (simp add: addToCart_def cartQuantity_def Let_def findIndex_none)

lemma addToCart_existing:
  assumes "\<not> cartQuantity st (v_id v) + q > inventoryQuantity v"
    and "find (\<lambda>item. CartItem.variantId item = v_id v) (cartItems st) = Some x"
  shows "\<exists>k < length (cartItems st). cartItems st ! k = x \<and>
     cartItems (addToCart st p v q) =
       (cartItems st)[k := x\<lparr>CartItem.quantity := CartItem.quantity x + q\<rparr>]"
proof -
  from findIndex_some [OF assms(2)] obtain k where
    k: "findIndex (\<lambda>item. CartItem.variantId item = v_id v) (cartItems st) = int k"
       "k < length (cartItems st)" "cartItems st ! k = x" by blast
  have "cartItems (addToCart st p v q) =
       map (\<lambda>(index, item). if int index = int k
              then item\<lparr>CartItem.quantity := CartItem.quantity item + q\<rparr> else item)
           (enumerate 0 (cartItems st))"
    using assms k(1) by (simp add: addToCart_def cartQuantity_def Let_def)
  also have "\<dots> = (cartItems st)[k := (cartItems st ! k)\<lparr>CartItem.quantity := CartItem.quantity (cartItems st ! k) + q\<rparr>]"
    using k(2) by (rule map_enumerate_at)
  finally show ?thesis using k by auto
qed

lemma find_SomeD: "find P xs = Some x \<Longrightarrow> x \<in> set xs \<and> P x"
  by (induction xs) (auto split: if_splits)

lemma find_NoneD: "find P xs = None \<Longrightarrow> x \<in> set xs \<Longrightarrow> \<not> P x"
  by (induction xs) (auto split: if_splits)

lemma cartInv_same_items: "cartItems st' = cartItems st \<Longrightarrow> cartInv vs st \<Longrightarrow> cartInv vs st'"
  by (simp only: cartInv_def)

lemma oneStock:
  "oneStockPerVariant vs \<Longrightarrow> v \<in> set vs \<Longrightarrow> w \<in> set vs \<Longrightarrow> v_id v = v_id w
     \<Longrightarrow> inventoryQuantity v = inventoryQuantity w"
  unfolding oneStockPerVariant_def list_all_iff by blast

lemma addToCart_rejected_items:
  assumes "cartQuantity st (v_id v) + q > inventoryQuantity v"
  shows "cartItems (addToCart st p v q) = cartItems st"
proof -
  from addToCart_rejected [OF assms] obtain msg where "addToCart st p v q = st\<lparr>error := Some msg\<rparr>"
    by blast
  then show ?thesis by simp
qed

lemma cartInv_addToCart:
  assumes inv: "cartInv vs st" and one: "oneStockPerVariant vs" and v: "v \<in> set vs"
  shows "cartInv vs (addToCart st p v q)"
proof (cases "cartQuantity st (v_id v) + q > inventoryQuantity v")
  case True
  from addToCart_rejected_items [OF True] inv show ?thesis by (rule cartInv_same_items)
next
  case False
  show ?thesis
  proof (cases "find (\<lambda>item. CartItem.variantId item = v_id v) (cartItems st)")
    case None
    let ?new = "\<lparr>productId = p_id p, variantId = v_id v, quantity = q, product = p, variant = v\<rparr>"
    from None have "cartQuantity st (v_id v) = 0" by (simp add: cartQuantity_def)
    with False have "q \<le> inventoryQuantity v" by simp
    with v have new: "itemOk vs ?new" by (simp add: itemOk_def)
    have items: "cartItems (addToCart st p v q) = cartItems st @ [?new]"
      using False None by (rule addToCart_new)
    show ?thesis
      unfolding cartInv_def items
    proof
      fix item assume "item \<in> set (cartItems st @ [?new])"
      then have "item \<in> set (cartItems st) \<or> item = ?new" by auto
      with inv new show "itemOk vs item" unfolding cartInv_def by blast
    qed
  next
    case (Some x)
    from addToCart_existing [OF False Some] obtain k where
      k: "k < length (cartItems st)" "cartItems st ! k = x"
         "cartItems (addToCart st p v q) =
            (cartItems st)[k := x\<lparr>CartItem.quantity := CartItem.quantity x + q\<rparr>]" by blast
    let ?upd = "x\<lparr>CartItem.quantity := CartItem.quantity x + q\<rparr>"
    from find_SomeD [OF Some] have xin: "x \<in> set (cartItems st)"
      and xid: "CartItem.variantId x = v_id v" by simp_all
    from inv xin have okx: "itemOk vs x" unfolding cartInv_def by blast
    then have xv: "variant x \<in> set vs" and xv2: "CartItem.variantId x = v_id (variant x)"
      by (simp_all add: itemOk_def)
    have "v_id v = v_id (variant x)" by (rule trans [OF xid [symmetric] xv2])
    from oneStock [OF one v xv this]
    have same: "inventoryQuantity v = inventoryQuantity (variant x)" .
    from Some have "cartQuantity st (v_id v) = CartItem.quantity x" by (simp add: cartQuantity_def)
    with False same have le: "CartItem.quantity x + q \<le> inventoryQuantity (variant x)" by simp
    from xv xv2 le have upd: "itemOk vs ?upd" by (simp add: itemOk_def)
    show ?thesis
      unfolding cartInv_def k(3)
    proof
      fix item assume "item \<in> set ((cartItems st)[k := ?upd])"
      then have "item \<in> insert ?upd (set (cartItems st))"
        using set_update_subset_insert by fast
      with inv upd show "itemOk vs item" unfolding cartInv_def by blast
    qed
  qed
qed

lemma cartInv_removeFromCart: "cartInv vs st \<Longrightarrow> cartInv vs (removeFromCart st vid)"
  by (simp add: cartInv_def removeFromCart_def)

lemma updateQuantity_items:
  "cartItems (updateQuantity st vid q) = cartItems st
   \<or> cartItems (updateQuantity st vid q) = cartItems (removeFromCart st vid) \<and> q \<le> 0
   \<or> cartItems (updateQuantity st vid q) =
        map (\<lambda>item. if CartItem.variantId item = vid then item\<lparr>CartItem.quantity := q\<rparr> else item)
            (cartItems st)
      \<and> (\<forall>x. find (\<lambda>item. CartItem.variantId item = vid) (cartItems st) = Some x
                \<longrightarrow> q \<le> inventoryQuantity (variant x))"
  by (simp add: updateQuantity_def split: option.splits)

lemma cartInv_updateQuantity:
  assumes inv: "cartInv vs st" and one: "oneStockPerVariant vs"
  shows "cartInv vs (updateQuantity st vid q)"
proof -
  let ?f = "\<lambda>item. if CartItem.variantId item = vid then item\<lparr>CartItem.quantity := q\<rparr> else item"
  from updateQuantity_items [of st vid q] consider
      (same) "cartItems (updateQuantity st vid q) = cartItems st"
    | (removed) "cartItems (updateQuantity st vid q) = cartItems (removeFromCart st vid)"
    | (changed) "cartItems (updateQuantity st vid q) = map ?f (cartItems st)"
        "\<forall>x. find (\<lambda>item. CartItem.variantId item = vid) (cartItems st) = Some x
                \<longrightarrow> q \<le> inventoryQuantity (variant x)"
    by blast
  then show ?thesis
  proof cases
    case same
    from same inv show ?thesis by (rule cartInv_same_items)
  next
    case removed
    from removed cartInv_removeFromCart [OF inv, of vid] show ?thesis by (rule cartInv_same_items)
  next
    case changed
    show ?thesis
      unfolding cartInv_def changed(1)
    proof
      fix item' assume "item' \<in> set (map ?f (cartItems st))"
      then obtain item where item: "item \<in> set (cartItems st)" "item' = ?f item" by auto
      from inv item(1) have ok: "itemOk vs item" unfolding cartInv_def by blast
      show "itemOk vs item'"
      proof (cases "CartItem.variantId item = vid")
        case False
        with item(2) ok show ?thesis by simp
      next
        case True
        with item(1) obtain x where x: "find (\<lambda>item. CartItem.variantId item = vid) (cartItems st) = Some x"
          by (cases "find (\<lambda>item. CartItem.variantId item = vid) (cartItems st)")
             (auto dest: find_NoneD)
        from find_SomeD [OF x] have xin: "x \<in> set (cartItems st)" and xid: "CartItem.variantId x = vid"
          by simp_all
        from inv xin have okx: "itemOk vs x" unfolding cartInv_def by blast
        from x changed(2) have le: "q \<le> inventoryQuantity (variant x)" by blast
        from ok okx True xid have "variant item \<in> set vs" "variant x \<in> set vs"
          "v_id (variant item) = v_id (variant x)" by (simp_all add: itemOk_def)
        from oneStock [OF one this] le have "q \<le> inventoryQuantity (variant item)" by simp
        with ok True item(2) show ?thesis by (simp add: itemOk_def)
      qed
    qed
  qed
qed

lemma set_addedVariants_Cons: "set (addedVariants acts) \<subseteq> set (addedVariants (a # acts))"
  by (cases a) auto

lemma addedVariants_head: "v \<in> set (addedVariants (AddToCart p v q # acts))"
  by simp

lemma cartInv_performAll:
  "cartInv vs st \<Longrightarrow> oneStockPerVariant vs \<Longrightarrow> set (addedVariants acts) \<subseteq> set vs
     \<Longrightarrow> cartInv vs (performAll st acts)"
proof (induction acts arbitrary: st)
  case Nil
  then show ?case by (simp add: performAll_def)
next
  case (Cons a acts)
  have step: "cartInv vs (perform st a)"
  proof (cases a)
    case (AddToCart p v q)
    with Cons.prems(3) have "v \<in> set vs" using addedVariants_head by blast
    with Cons.prems AddToCart show ?thesis by (simp add: cartInv_addToCart)
  next
    case (UpdateQuantity vid q)
    with Cons.prems show ?thesis by (simp add: cartInv_updateQuantity)
  next
    case (RemoveFromCart vid)
    with Cons.prems show ?thesis by (simp add: cartInv_removeFromCart)
  qed
  from Cons.prems(3) set_addedVariants_Cons [of acts a]
  have "set (addedVariants acts) \<subseteq> set vs" by blast
  from Cons.IH [OF step Cons.prems(2) this] show ?case by (simp add: performAll_def)
qed

text \<open>
  C5. Start from an empty cart and run any handlers, where a variant id always comes
  with the same stock count. Then every cart item's quantity is at most the stock of
  its variant. In any state, \<open>addToCart\<close> with a quantity that takes the cart above
  the variant's stock, and \<open>updateQuantity\<close> with a positive quantity above the stock
  of the item's variant, leave the cart items as they are and set the error.
\<close>

theorem cart_within_stock:
  assumes "cartItems st0 = []" and "oneStockPerVariant (addedVariants acts)"
  shows "withinStock (performAll st0 acts)
    \<and> (cartQuantity st (v_id v) + q > inventoryQuantity v \<longrightarrow>
         cartItems (addToCart st p v q) = cartItems st \<and> error (addToCart st p v q) \<noteq> None)
    \<and> (0 < q' \<and> (\<exists>item. find (\<lambda>item. CartItem.variantId item = vid) (cartItems st) = Some item
                        \<and> q' > inventoryQuantity (variant item)) \<longrightarrow>
         cartItems (updateQuantity st vid q') = cartItems st \<and> error (updateQuantity st vid q') \<noteq> None)"
proof -
  from assms(1) have "cartInv (addedVariants acts) st0" by (simp add: cartInv_def)
  from cartInv_performAll [OF this assms(2)] have "cartInv (addedVariants acts) (performAll st0 acts)"
    by simp
  then have a: "withinStock (performAll st0 acts)"
    by (simp add: cartInv_def itemOk_def withinStock_def list_all_iff)
  have b: "cartQuantity st (v_id v) + q > inventoryQuantity v \<longrightarrow>
         cartItems (addToCart st p v q) = cartItems st \<and> error (addToCart st p v q) \<noteq> None"
    using addToCart_rejected [of v st q p] by auto
  have c: "0 < q' \<and> (\<exists>item. find (\<lambda>item. CartItem.variantId item = vid) (cartItems st) = Some item
                        \<and> q' > inventoryQuantity (variant item)) \<longrightarrow>
         cartItems (updateQuantity st vid q') = cartItems st \<and> error (updateQuantity st vid q') \<noteq> None"
    by (auto simp: updateQuantity_def)
  from a b c show ?thesis by blast
qed


theorem cart_within_stock_witness:
  "cartItems initialForm = []
   \<and> oneStockPerVariant (addedVariants demoActions)
   \<and> withinStock (performAll initialForm demoActions)
   \<and> getTotalItems (performAll initialForm demoActions) = 2
   \<and> cartQuantity (addToCart initialForm demoProduct demoVariant 2) (v_id demoVariant) + 2
         > inventoryQuantity demoVariant
   \<and> cartItems (addToCart (addToCart initialForm demoProduct demoVariant 2) demoProduct demoVariant 2)
         = cartItems (addToCart initialForm demoProduct demoVariant 2)
   \<and> cartItems (updateQuantity (addToCart initialForm demoProduct demoVariant 2) (u ''v1'') 4)
         = cartItems (addToCart initialForm demoProduct demoVariant 2)"
proof -
  let ?st = "addToCart initialForm demoProduct demoVariant 2"
  have empty: "cartItems initialForm = []" by (simp add: initialForm_def)
  have one: "oneStockPerVariant (addedVariants demoActions)"
    by (simp add: oneStockPerVariant_def demoActions_def)
  have vid: "v_id demoVariant = u ''v1''" by (simp add: demoVariant_def)
  have held: "cartQuantity ?st (v_id demoVariant) = 2"
    by (simp add: cartQuantity_def demoCart vid)
  have stock: "inventoryQuantity demoVariant = 3" by (simp add: demoVariant_def)
  have over: "cartQuantity ?st (v_id demoVariant) + 2 > inventoryQuantity demoVariant"
    by (simp add: held stock)
  have found: "0 < (4::int) \<and> (\<exists>item. find (\<lambda>item. CartItem.variantId item = u ''v1'') (cartItems ?st) = Some item
                    \<and> 4 > inventoryQuantity (variant item))"
    by (simp add: demoCart stock)
  note facts = cart_within_stock [OF empty one, where st = ?st and v = demoVariant and q = 2
      and p = demoProduct and q' = 4 and vid = "u ''v1''"]
  from facts have within: "withinStock (performAll initialForm demoActions)" by blast
  from facts over have rejected:
    "cartItems (addToCart ?st demoProduct demoVariant 2) = cartItems ?st" by blast
  from facts found have refused:
    "cartItems (updateQuantity ?st (u ''v1'') 4) = cartItems ?st" by blast
  have "performAll initialForm demoActions = addToCart ?st demoProduct demoVariant 2"
    by (simp add: performAll_def demoActions_def)
  with rejected have "getTotalItems (performAll initialForm demoActions) = 2"
    by (simp add: getTotalItems_def demoCart)
  with empty one within over rejected refused show ?thesis by blast
qed

text \<open>
  C10. \<open>updateQuantity\<close> with a quantity of zero or less is \<open>removeFromCart\<close>: the items
  of that variant leave the cart, and no error is set.
\<close>

theorem updateQuantity_nonpositive_removes:
  "q \<le> 0 \<Longrightarrow>
     updateQuantity st vid q = removeFromCart st vid
     \<and> cartItems (updateQuantity st vid q)
           = filter (\<lambda>item. CartItem.variantId item \<noteq> vid) (cartItems st)
     \<and> vid \<notin> CartItem.variantId ` set (cartItems (updateQuantity st vid q))
     \<and> error (updateQuantity st vid q) = error st"
  by (auto simp: updateQuantity_def removeFromCart_def)

theorem updateQuantity_nonpositive_removes_witness:
  "(0::int) \<le> 0
   \<and> u ''v1'' \<in> CartItem.variantId ` set (cartItems (addToCart initialForm demoProduct demoVariant 2))
   \<and> updateQuantity (addToCart initialForm demoProduct demoVariant 2) (u ''v1'') 0
       = removeFromCart (addToCart initialForm demoProduct demoVariant 2) (u ''v1'')
   \<and> cartItems (updateQuantity (addToCart initialForm demoProduct demoVariant 2) (u ''v1'') 0) = []"
proof -
  let ?st = "addToCart initialForm demoProduct demoVariant 2"
  have h: "(0::int) \<le> 0" by simp
  have present: "u ''v1'' \<in> CartItem.variantId ` set (cartItems ?st)"
    by (simp add: demoCart)
  have same: "updateQuantity ?st (u ''v1'') 0 = removeFromCart ?st (u ''v1'')"
    and left: "cartItems (updateQuantity ?st (u ''v1'') 0)
                 = filter (\<lambda>item. CartItem.variantId item \<noteq> u ''v1'') (cartItems ?st)"
    using updateQuantity_nonpositive_removes [OF h, of ?st "u ''v1''"] by blast+
  have gone: "cartItems (updateQuantity ?st (u ''v1'') 0) = []"
    unfolding left by (simp add: demoCart)
  from h present same gone show ?thesis by blast
qed

section \<open>Script loader: properties\<close>

lemma injected_none:
  "injected s = 0 \<Longrightarrow> i < length (document_scripts s) \<Longrightarrow> settles (document_scripts s ! i) = None"
proof -
  assume z: "injected s = 0" and i: "i < length (document_scripts s)"
  from z have "filter (\<lambda>el. settles el \<noteq> None) (document_scripts s) = []"
    by (simp add: injected_def)
  then have "\<forall>el\<in>set (document_scripts s). settles el = None"
    by (simp add: filter_empty_conv)
  with i show ?thesis by simp
qed

lemma onload_fields:
  "scriptLoadPromise (onload i s) = scriptLoadPromise s
   \<and> document_scripts (onload i s) = document_scripts s
   \<and> (isScriptLoaded (onload i s) \<longrightarrow>
        isScriptLoaded s \<or> (i < length (document_scripts s) \<and> settles (document_scripts s ! i) \<noteq> None))"
  by (simp add: onload_def split: option.splits)

lemma onerror_fields:
  "scriptLoadPromise (onerror i s) = scriptLoadPromise s
   \<and> document_scripts (onerror i s) = document_scripts s
   \<and> isScriptLoaded (onerror i s) = isScriptLoaded s"
  by (simp add: onerror_def split: option.splits)

lemma injected_cong: "document_scripts s' = document_scripts s \<Longrightarrow> injected s' = injected s"
  by (simp add: injected_def)

lemma loaderInv_onload: "loaderInv n (returned, s) \<Longrightarrow> loaderInv n (returned, onload i s)"
  using onload_fields [of i s] injected_none [of s i] injected_cong [of "onload i s" s]
  by (auto simp: loaderInv_def)

lemma loaderInv_onerror: "loaderInv n (returned, s) \<Longrightarrow> loaderInv n (returned, onerror i s)"
  using onerror_fields [of i s] injected_cong [of "onerror i s" s]
  by (auto simp: loaderInv_def)

lemma loaderInv_call:
  "loaderInv n (returned, s) \<Longrightarrow> loadGoogleMapsScript key s = (p, s')
     \<Longrightarrow> loaderInv n (returned @ [p], s')"
  by (cases returned)
     (auto simp: loaderInv_def loadGoogleMapsScript_def injected_def Let_def
           split: if_splits option.splits)

lemma loaderInv_run: "loaderInv n rs \<Longrightarrow> loaderInv n (run key evs rs)"
proof (induction key evs rs rule: run.induct)
  case (1 key returned s)
  then show ?case by simp
next
  case (2 key evs returned s)
  obtain p s' where call: "loadGoogleMapsScript key s = (p, s')" by (cases "loadGoogleMapsScript key s")
  from loaderInv_call [OF "2.prems" call] have "loaderInv n (returned @ [p], s')" .
  from "2.IH" [OF call [symmetric] this] call show ?case by simp
next
  case (3 key i evs returned s)
  from "3.IH" [OF loaderInv_onload [OF "3.prems"]] show ?case by simp
next
  case (4 key i evs returned s)
  from "4.IH" [OF loaderInv_onerror [OF "4.prems"]] show ?case by simp
qed

lemma loaderInv_initial: "loaderInv (length srcs) ([], initialLoader srcs)"
  by (simp add: loaderInv_def initialLoader_def injected_def)

text \<open>
  C7. After any calls and load or error events, from the module as first loaded: at
  most one script element has been injected, also after one more call. That call,
  when the loaded flag is set, returns a fresh promise that is already fulfilled and
  leaves the document as it is; when the flag is not set and a call was made before,
  it returns the promise that the first call returned and changes nothing.
\<close>

theorem loader_injects_at_most_once:
  assumes "run key evs ([], initialLoader srcs) = (returned, s)"
    and "loadGoogleMapsScript key s = (p, s')"
  shows "injected s \<le> 1 \<and> injected s' \<le> 1
     \<and> length (document_scripts s') \<le> length srcs + 1
     \<and> (isScriptLoaded s \<longrightarrow>
           p < length (promises s') \<and> promises s' ! p = Fulfilled
           \<and> document_scripts s' = document_scripts s)
     \<and> (\<not> isScriptLoaded s \<and> returned \<noteq> [] \<longrightarrow> p = hd returned \<and> s' = s)"
proof -
  from loaderInv_run [OF loaderInv_initial, of srcs key evs] assms(1)
  have inv: "loaderInv (length srcs) (returned, s)" by simp
  from loaderInv_call [OF inv assms(2)] have inv': "loaderInv (length srcs) (returned @ [p], s')" .
  have loaded: "isScriptLoaded s \<longrightarrow>
           p < length (promises s') \<and> promises s' ! p = Fulfilled
           \<and> document_scripts s' = document_scripts s"
    using assms(2) by (auto simp: loadGoogleMapsScript_def)
  have waiting: "\<not> isScriptLoaded s \<and> returned \<noteq> [] \<longrightarrow> p = hd returned \<and> s' = s"
    using assms(2) inv by (auto simp: loadGoogleMapsScript_def loaderInv_def)
  from inv inv' loaded waiting show ?thesis by (auto simp: loaderInv_def)
qed


theorem loader_injects_at_most_once_witness:
  "run None [Call, Call] ([], initialLoader []) = ([0, 0], demoWaiting)
   \<and> \<not> isScriptLoaded demoWaiting
   \<and> loadGoogleMapsScript None demoWaiting = (0, demoWaiting)
   \<and> injected demoWaiting \<le> 1
   \<and> run None [Call, Call, ScriptLoaded 0] ([], initialLoader []) = ([0, 0], demoLoaded)
   \<and> isScriptLoaded demoLoaded
   \<and> fst (loadGoogleMapsScript None demoLoaded) = 1
   \<and> promises (snd (loadGoogleMapsScript None demoLoaded)) ! 1 = Fulfilled
   \<and> document_scripts (snd (loadGoogleMapsScript None demoLoaded)) = document_scripts demoLoaded"
proof -
  have r1: "run None [Call, Call] ([], initialLoader []) = ([0, 0], demoWaiting)"
    by (simp add: demoWaiting_def initialLoader_def loadGoogleMapsScript_def existingScript_def Let_def)
  have r2: "run None [Call, Call, ScriptLoaded 0] ([], initialLoader []) = ([0, 0], demoLoaded)"
    by (simp add: demoLoaded_def initialLoader_def loadGoogleMapsScript_def existingScript_def
          onload_def settle_def Let_def)
  have c1: "loadGoogleMapsScript None demoWaiting = (0, demoWaiting)"
    by (simp add: demoWaiting_def loadGoogleMapsScript_def)
  have w: "\<not> isScriptLoaded demoWaiting" by (simp add: demoWaiting_def)
  have l: "isScriptLoaded demoLoaded" by (simp add: demoLoaded_def)
  have c2: "loadGoogleMapsScript None demoLoaded
              = (fst (loadGoogleMapsScript None demoLoaded), snd (loadGoogleMapsScript None demoLoaded))"
    by simp
  have p2: "fst (loadGoogleMapsScript None demoLoaded) = 1"
    by (simp add: demoLoaded_def loadGoogleMapsScript_def)
  from loader_injects_at_most_once [OF r1 c1] have a: "injected demoWaiting \<le> 1" by blast
  from loader_injects_at_most_once [OF r2 c2] l
  have b: "promises (snd (loadGoogleMapsScript None demoLoaded)) ! fst (loadGoogleMapsScript None demoLoaded)
             = Fulfilled"
    and d: "document_scripts (snd (loadGoogleMapsScript None demoLoaded)) = document_scripts demoLoaded"
    by blast+
  from b have b': "promises (snd (loadGoogleMapsScript None demoLoaded)) ! 1 = Fulfilled"
    by (simp add: p2)
  from r1 w c1 a r2 l p2 b' d show ?thesis by blast
qed

section \<open>Place selection: properties\<close>

lemma fold_city:
  "selected_address.city (foldl parseComponent acc cs) =
     (if filter isCityPart cs = [] then selected_address.city acc else long_name (last (filter isCityPart cs)))"
  by (induction cs arbitrary: acc) (auto simp: parseComponent_def isCityPart_def Let_def)

lemma fold_zip:
  "selected_address.zip (foldl parseComponent acc cs) =
     (if filter isZipPart cs = [] then selected_address.zip acc else long_name (last (filter isZipPart cs)))"
  by (induction cs arbitrary: acc) (auto simp: parseComponent_def isZipPart_def Let_def)

lemma lastLongName_last:
  "lastLongName P cs = (if filter P cs = [] then [] else long_name (last (filter P cs)))"
  by (cases "filter P cs" rule: rev_cases) (simp_all add: lastLongName_def)

lemma fold_street:
  "street (foldl parseComponent acc cs) =
     (if street acc \<noteq> []
      then street acc @ concat (map (\<lambda>m. u '' '' @ m) (map long_name (filter isStreetPart cs)))
      else spaceJoin (dropWhile (\<lambda>n. n = []) (map long_name (filter isStreetPart cs))))"
proof (induction cs arbitrary: acc)
  case Nil
  then show ?case by simp
next
  case (Cons c cs)
  show ?case
  proof (cases "isStreetPart c")
    case False
    then have "street (parseComponent acc c) = street acc"
      by (simp add: parseComponent_def isStreetPart_def Let_def)
    with False show ?thesis by (simp add: Cons.IH)
  next
    case True
    then have step: "street (parseComponent acc c) =
        (if street acc \<noteq> [] then street acc @ u '' '' @ long_name c else long_name c)"
      by (simp add: parseComponent_def isStreetPart_def Let_def)
    show ?thesis
    proof (cases "street acc = []")
      case False
      with True step show ?thesis by (simp add: Cons.IH u_def)
    next
      case empty: True
      show ?thesis
      proof (cases "long_name c = []")
        case True
        with empty step \<open>isStreetPart c\<close> show ?thesis by (simp add: Cons.IH)
      next
        case False
        with empty step \<open>isStreetPart c\<close> show ?thesis by (simp add: Cons.IH)
      qed
    qed
  qed
qed

lemma dropWhile_nonempty: "\<forall>n\<in>set ns. n \<noteq> [] \<Longrightarrow> dropWhile (\<lambda>n. n = []) ns = ns"
  by (cases ns) simp_all

text \<open>
  C8. For a place that has \<open>address_components\<close> the callback is called, with: as
  street the \<open>long_name\<close>s of the route and street-number components, in order,
  joined by spaces after any leading empty ones (the plain join when none is empty),
  or the formatted address when that gives nothing; as city and as zip the
  \<open>long_name\<close> of the last component of that kind, or the empty string without one.
\<close>

theorem handlePlaceChanged_extracts:
  assumes "address_components pl = Some cs"
  shows "\<exists>a. handlePlaceChanged (Some pl) = Some a
     \<and> street a =
         (let joined = spaceJoin (dropWhile (\<lambda>n. n = []) (map long_name (filter isStreetPart cs)))
          in if joined \<noteq> [] then joined
             else (case formatted_address pl of Some formatted \<Rightarrow> formatted | None \<Rightarrow> []))
     \<and> ((\<forall>c\<in>set cs. isStreetPart c \<longrightarrow> long_name c \<noteq> []) \<and> filter isStreetPart cs \<noteq> [] \<longrightarrow>
            street a = spaceJoin (map long_name (filter isStreetPart cs)))
     \<and> selected_address.city a = lastLongName isCityPart cs
     \<and> selected_address.zip a = lastLongName isZipPart cs
     \<and> (filter isCityPart cs = [] \<longrightarrow> selected_address.city a = [])
     \<and> (filter isZipPart cs = [] \<longrightarrow> selected_address.zip a = [])"
proof -
  let ?names = "map long_name (filter isStreetPart cs)"
  let ?parsed = "foldl parseComponent \<lparr>street = [], city = [], zip = []\<rparr> cs"
  have st: "street ?parsed = spaceJoin (dropWhile (\<lambda>n. n = []) ?names)"
    by (simp add: fold_street)
  have ci: "selected_address.city ?parsed = lastLongName isCityPart cs"
    by (simp add: fold_city lastLongName_last)
  have zi: "selected_address.zip ?parsed = lastLongName isZipPart cs"
    by (simp add: fold_zip lastLongName_last)
  have plain: "(\<forall>c\<in>set cs. isStreetPart c \<longrightarrow> long_name c \<noteq> []) \<Longrightarrow> filter isStreetPart cs \<noteq> [] \<Longrightarrow>
      spaceJoin (dropWhile (\<lambda>n. n = []) ?names) = spaceJoin ?names \<and> spaceJoin ?names \<noteq> []"
  proof -
    assume a: "\<forall>c\<in>set cs. isStreetPart c \<longrightarrow> long_name c \<noteq> []" and b: "filter isStreetPart cs \<noteq> []"
    from a have "\<forall>n\<in>set ?names. n \<noteq> []" by auto
    then have d: "dropWhile (\<lambda>n. n = []) ?names = ?names" by (rule dropWhile_nonempty)
    from b obtain c rest where f: "filter isStreetPart cs = c # rest" by (cases "filter isStreetPart cs") auto
    then have "c \<in> set (filter isStreetPart cs)" by simp
    with a have "long_name c \<noteq> []" by auto
    with f have "spaceJoin ?names \<noteq> []" by simp
    with d show ?thesis by simp
  qed
  show ?thesis
    using assms st ci zi plain
    by (auto simp: handlePlaceChanged_def Let_def lastLongName_last split: option.splits)
qed


theorem handlePlaceChanged_extracts_witness:
  "address_components demoPlace \<noteq> None
   \<and> (\<exists>a. handlePlaceChanged (Some demoPlace) = Some a
          \<and> street a = u ''12 Calle Mayor''
          \<and> selected_address.city a = u ''Madrid''
          \<and> selected_address.zip a = [])"
proof -
  let ?cs = "[\<lparr>long_name = u ''12'', short_name = u ''12'', types = [u ''street_number'']\<rparr>,
         \<lparr>long_name = u ''Calle Mayor'', short_name = u ''C. Mayor'', types = [u ''route'']\<rparr>,
         \<lparr>long_name = u ''Madrid'', short_name = u ''Madrid'', types = [u ''locality'', u ''political'']\<rparr>]"
  have cs: "address_components demoPlace = Some ?cs" by (simp add: demoPlace_def)
  have parts: "filter isStreetPart ?cs \<noteq> []" "\<forall>c\<in>set ?cs. isStreetPart c \<longrightarrow> long_name c \<noteq> []"
    by (simp_all add: isStreetPart_def u_def)
  have joined: "spaceJoin (map long_name (filter isStreetPart ?cs)) = u ''12 Calle Mayor''"
    by (simp add: isStreetPart_def u_def)
  have town: "lastLongName isCityPart ?cs = u ''Madrid''"
    by (simp add: lastLongName_def isCityPart_def u_def)
  have code: "filter isZipPart ?cs = []"
    by (simp add: isZipPart_def u_def)
  from handlePlaceChanged_extracts [OF cs] obtain a where
    a: "handlePlaceChanged (Some demoPlace) = Some a"
       "(\<forall>c\<in>set ?cs. isStreetPart c \<longrightarrow> long_name c \<noteq> []) \<and> filter isStreetPart ?cs \<noteq> [] \<longrightarrow>
            street a = spaceJoin (map long_name (filter isStreetPart ?cs))"
       "selected_address.city a = lastLongName isCityPart ?cs"
       "filter isZipPart ?cs = [] \<longrightarrow> selected_address.zip a = []"
    by blast
  from a(2) parts joined have "street a = u ''12 Calle Mayor''" by simp
  moreover from a(3) town have "selected_address.city a = u ''Madrid''" by simp
  moreover from a(4) code have "selected_address.zip a = []" by simp
  ultimately show ?thesis using a(1) cs by simp
qed

section \<open>Province lookup: properties\<close>


























end
